theory Spec2Isabelle
  imports Main "HOL-Library.Word"
begin

unbundle bit_operations_syntax

section \<open>Platform constants\<close>

text \<open>
  The error numbers come from the C library's \<^verbatim>\<open>errno.h\<close>; the values are the ones of
  Linux, where \<^verbatim>\<open>EWOULDBLOCK\<close> is another name of \<^verbatim>\<open>EAGAIN\<close>.
\<close>

definition ENOENT :: int where "ENOENT = 2"
definition EAGAIN :: int where "EAGAIN = 11"
definition EWOULDBLOCK :: int where "EWOULDBLOCK = 11"
definition EACCES :: int where "EACCES = 13"
definition EEXIST :: int where "EEXIST = 17"
definition EPROTO :: int where "EPROTO = 71"

section \<open>Protocol status and request attributes\<close>

text \<open>
  \<^verbatim>\<open>enum rpmem_err\<close> is declared in a header that is not part of the sources at hand, so
  its members are kept symbolic. The handlers hold the status in an \<^verbatim>\<open>int\<close> and the close
  handler stores a raw \<^verbatim>\<open>errno\<close> there: \<open>RPMEM_ERR_RAW\<close> carries such a number.
\<close>

datatype rpmem_err =
    RPMEM_SUCCESS
  | RPMEM_ERR_BADSIZE
  | RPMEM_ERR_FATAL
  | RPMEM_ERR_FATAL_CONN
  | RPMEM_ERR_BUSY
  | RPMEM_ERR_EXISTS
  | RPMEM_ERR_NOEXIST
  | RPMEM_ERR_NOACCESS
  | RPMEM_ERR_RAW int

text \<open>
  \<^verbatim>\<open>struct rpmem_req_attr\<close>; the size field is \<^verbatim>\<open>size_t pool_size\<close>, named
  \<open>req_pool_size\<close> here because the pool handle has a field of the same name.
\<close>

record rpmem_req_attr =
  pool_desc :: string
  req_pool_size :: "64 word"
  nlanes :: "32 word"
  provider :: "32 word"

text \<open>
  \<^verbatim>\<open>struct rpmemd_db_pool\<close>: the mapping's address and size. \<open>pool_name\<close> stands for the
  pool set the handle refers to, which is how the data base finds the backing file again
  when the handle is closed.
\<close>

record rpmemd_db_pool =
  pool_name :: string
  pool_addr :: "64 word"
  pool_size :: "64 word"

text \<open>
  Modelled from the spec: \<^verbatim>\<open>POOL_HDR_SIZE\<close> is \<^verbatim>\<open>sizeof(struct pool_hdr)\<close> from
  \<^verbatim>\<open>pool_hdr.h\<close>, which is not among the sources; the spec's first scenario gives a
  4 KiB header. Being a \<^verbatim>\<open>sizeof\<close>, it has type \<^verbatim>\<open>size_t\<close>.
\<close>

definition POOL_HDR_SIZE :: "64 word" where
  "POOL_HDR_SIZE = 4096"

section \<open>rpmemd.c: error mapping and the size check\<close>

text \<open>\<^verbatim>\<open>rpmemd_db_get_status\<close>: the \<^verbatim>\<open>switch\<close> on the error number, in the source's order.\<close>

definition rpmemd_db_get_status :: "int \<Rightarrow> rpmem_err" where
  "rpmemd_db_get_status err =
     (if err = EEXIST then RPMEM_ERR_EXISTS
      else if err = EACCES then RPMEM_ERR_NOACCESS
      else if err = ENOENT then RPMEM_ERR_NOEXIST
      else if err = EWOULDBLOCK then RPMEM_ERR_BUSY
      else RPMEM_ERR_FATAL)"

text \<open>
  \<^verbatim>\<open>rpmemd_check_pool\<close>. The source reads \<^verbatim>\<open>rpmemd->pool->pool_size\<close>; both callers have
  just stored a non-null handle there, and the model is given that handle. All three
  operands are \<^verbatim>\<open>size_t\<close>, so the subtraction and the comparison are unsigned 64-bit.
  The result is the return value and the value left in \<^verbatim>\<open>*status\<close>.
\<close>

definition rpmemd_check_pool ::
  "rpmemd_db_pool \<Rightarrow> rpmem_req_attr \<Rightarrow> rpmem_err \<Rightarrow> int \<times> rpmem_err" where
  "rpmemd_check_pool p req status =
     (if pool_size p - POOL_HDR_SIZE < req_pool_size req
      then (- 1, RPMEM_ERR_BADSIZE)
      else (0, status))"

section \<open>rpmemd.c: the session handle and what it points to\<close>

text \<open>
  Every call that leaves the controller is recorded, in order: calls into the pool data
  base, calls into the fabric provider and responses written to the out-of-band
  connection (with the status they carry).
\<close>

datatype event =
    DB_POOL_CREATE string
  | DB_POOL_OPEN string
  | DB_POOL_CLOSE string
  | DB_POOL_REMOVE string
  | FIP_INIT "64 word" "64 word" "32 word"
  | FIP_ACCEPT
  | FIP_PROCESS_START
  | FIP_PROCESS_STOP
  | FIP_WAIT_CLOSE
  | FIP_CLOSE
  | FIP_FINI
  | OBC_CREATE_RESP rpmem_err
  | OBC_OPEN_RESP rpmem_err
  | OBC_CLOSE_RESP rpmem_err

text \<open>
  \<^verbatim>\<open>struct rpmemd\<close>, with the fields the request handlers read or write: \<open>pool\<close>
  (\<open>None\<close> is the null pointer), \<open>fip\<close> (whether the fabric handle is non-null) and
  \<open>closing\<close>. The objects behind \<^verbatim>\<open>db\<close>, \<^verbatim>\<open>obc\<close> and \<^verbatim>\<open>fip\<close> are kept in the same
  record: \<open>files\<close> are the backing files under the pool set directory with their sizes,
  \<open>held\<close> the pools the data base currently holds open (mapped and locked), and
  \<open>calls\<close> the record of outgoing calls.
\<close>

record rpmemd =
  pool :: "rpmemd_db_pool option"
  fip :: bool
  closing :: bool
  files :: "string \<rightharpoonup> 64 word"
  held :: "string set"
  calls :: "event list"

text \<open>
  What the outside world answers while one request is handled. Each handler makes each
  of these calls at most once, so one answer per call is enough: \<open>db_errno\<close> is a
  failure of the pool data base beyond the ones its model decides itself (for example
  \<^verbatim>\<open>EACCES\<close>), \<open>db_new_size\<close> and \<open>db_addr\<close> the size and address of the mapping,
  \<open>fip_init_err\<close> the error of a failing fabric initialisation, the \<open>_ret\<close> fields the
  return values of the named calls, and \<open>stop_errno\<close> the \<^verbatim>\<open>errno\<close> a failing
  \<^verbatim>\<open>rpmemd_fip_process_stop\<close> leaves.
\<close>

record env =
  db_errno :: "int option"
  db_new_size :: "64 word"
  db_addr :: "64 word"
  fip_init_err :: "rpmem_err option"
  obc_resp_ret :: int
  fip_accept_ret :: int
  fip_process_start_ret :: int
  fip_process_stop_ret :: int
  stop_errno :: int

subsection \<open>The pool data base\<close>

text \<open>
  Modelled from the spec: \<^verbatim>\<open>rpmemd_db_pool_create\<close> (\<^verbatim>\<open>rpmemd_db.c\<close> is not among the
  sources). It creates a fresh backing file and fails with \<^verbatim>\<open>EEXIST\<close> if the file is
  already present. The result is the error number or the new handle.
\<close>

definition rpmemd_db_pool_create ::
  "env \<Rightarrow> string \<Rightarrow> rpmemd \<Rightarrow> (int + rpmemd_db_pool) \<times> rpmemd" where
  "rpmemd_db_pool_create e desc s =
     (let s1 = s\<lparr>calls := calls s @ [DB_POOL_CREATE desc]\<rparr> in
      case files s desc of
        Some sz \<Rightarrow> (Inl EEXIST, s1)
      | None \<Rightarrow>
          (case db_errno e of
             Some err \<Rightarrow> (Inl err, s1)
           | None \<Rightarrow>
               (Inr \<lparr>pool_name = desc, pool_addr = db_addr e, pool_size = db_new_size e\<rparr>,
                s1\<lparr>files := (files s)(desc \<mapsto> db_new_size e),
                   held := insert desc (held s)\<rparr>)))"

text \<open>
  Modelled from the spec: \<^verbatim>\<open>rpmemd_db_pool_open\<close>. It opens an existing file, fails with
  \<^verbatim>\<open>ENOENT\<close> if there is none and with \<^verbatim>\<open>EWOULDBLOCK\<close> if the pool is already held
  (single-opener exclusion); the mapping has the size of the file.
\<close>

definition rpmemd_db_pool_open ::
  "env \<Rightarrow> string \<Rightarrow> rpmemd \<Rightarrow> (int + rpmemd_db_pool) \<times> rpmemd" where
  "rpmemd_db_pool_open e desc s =
     (let s1 = s\<lparr>calls := calls s @ [DB_POOL_OPEN desc]\<rparr> in
      case files s desc of
        None \<Rightarrow> (Inl ENOENT, s1)
      | Some sz \<Rightarrow>
          if desc \<in> held s then (Inl EWOULDBLOCK, s1)
          else
            (case db_errno e of
               Some err \<Rightarrow> (Inl err, s1)
             | None \<Rightarrow>
                 (Inr \<lparr>pool_name = desc, pool_addr = db_addr e, pool_size = sz\<rparr>,
                  s1\<lparr>held := insert desc (held s)\<rparr>)))"

text \<open>
  Modelled from the spec: \<^verbatim>\<open>rpmemd_db_pool_close\<close> releases the mapping and the lock.
\<close>

definition rpmemd_db_pool_close :: "rpmemd_db_pool \<Rightarrow> rpmemd \<Rightarrow> rpmemd" where
  "rpmemd_db_pool_close p s =
     s\<lparr>held := held s - {pool_name p}, calls := calls s @ [DB_POOL_CLOSE (pool_name p)]\<rparr>"

text \<open>
  Modelled from the spec: \<^verbatim>\<open>rpmemd_db_pool_remove\<close> unlinks the backing file and is valid
  only with no current opener: on a pool that is still held it changes nothing.
\<close>

definition rpmemd_db_pool_remove :: "string \<Rightarrow> rpmemd \<Rightarrow> rpmemd" where
  "rpmemd_db_pool_remove desc s =
     (let s1 = s\<lparr>calls := calls s @ [DB_POOL_REMOVE desc]\<rparr> in
      if desc \<in> held s then s1 else s1\<lparr>files := (files s)(desc := None)\<rparr>)"

subsection \<open>The fabric provider and the out-of-band connection\<close>

text \<open>
  Modelled from the spec: the fabric adapter (\<^verbatim>\<open>rpmemd_fip.c\<close>) and the out-of-band
  endpoint (\<^verbatim>\<open>rpmemd_obc.c\<close>) are not among the sources. Each call is recorded and
  returns what the environment answers.
\<close>

definition rpmemd_fip_accept :: "env \<Rightarrow> rpmemd \<Rightarrow> int \<times> rpmemd" where
  "rpmemd_fip_accept e s = (fip_accept_ret e, s\<lparr>calls := calls s @ [FIP_ACCEPT]\<rparr>)"

definition rpmemd_fip_process_start :: "env \<Rightarrow> rpmemd \<Rightarrow> int \<times> rpmemd" where
  "rpmemd_fip_process_start e s =
     (fip_process_start_ret e, s\<lparr>calls := calls s @ [FIP_PROCESS_START]\<rparr>)"

definition rpmemd_fip_process_stop :: "env \<Rightarrow> rpmemd \<Rightarrow> int \<times> rpmemd" where
  "rpmemd_fip_process_stop e s =
     (fip_process_stop_ret e, s\<lparr>calls := calls s @ [FIP_PROCESS_STOP]\<rparr>)"

definition rpmemd_fip_wait_close :: "rpmemd \<Rightarrow> rpmemd" where
  "rpmemd_fip_wait_close s = s\<lparr>calls := calls s @ [FIP_WAIT_CLOSE]\<rparr>"

definition rpmemd_fip_close :: "rpmemd \<Rightarrow> rpmemd" where
  "rpmemd_fip_close s = s\<lparr>calls := calls s @ [FIP_CLOSE]\<rparr>"

definition rpmemd_fip_fini :: "rpmemd \<Rightarrow> rpmemd" where
  "rpmemd_fip_fini s = s\<lparr>calls := calls s @ [FIP_FINI]\<rparr>"

definition rpmemd_obc_create_resp :: "env \<Rightarrow> rpmem_err \<Rightarrow> rpmemd \<Rightarrow> int \<times> rpmemd" where
  "rpmemd_obc_create_resp e status s =
     (obc_resp_ret e, s\<lparr>calls := calls s @ [OBC_CREATE_RESP status]\<rparr>)"

definition rpmemd_obc_open_resp :: "env \<Rightarrow> rpmem_err \<Rightarrow> rpmemd \<Rightarrow> int \<times> rpmemd" where
  "rpmemd_obc_open_resp e status s =
     (obc_resp_ret e, s\<lparr>calls := calls s @ [OBC_OPEN_RESP status]\<rparr>)"

definition rpmemd_obc_close_resp :: "env \<Rightarrow> rpmem_err \<Rightarrow> rpmemd \<Rightarrow> int \<times> rpmemd" where
  "rpmemd_obc_close_resp e status s =
     (obc_resp_ret e, s\<lparr>calls := calls s @ [OBC_CLOSE_RESP status]\<rparr>)"

text \<open>
  \<^verbatim>\<open>rpmemd_common_fip_init\<close>: the region handed to the fabric starts \<^verbatim>\<open>POOL_HDR_SIZE\<close>
  bytes into the mapping and has the requested size. On failure \<^verbatim>\<open>rpmemd->fip\<close> is
  null and \<^verbatim>\<open>*status\<close> takes the provider's error. The result is the return value, the
  value left in \<^verbatim>\<open>*status\<close>, and the session.
\<close>

definition rpmemd_common_fip_init ::
  "env \<Rightarrow> rpmem_req_attr \<Rightarrow> rpmemd_db_pool \<Rightarrow> rpmem_err \<Rightarrow> rpmemd
     \<Rightarrow> (int \<times> rpmem_err) \<times> rpmemd" where
  "rpmemd_common_fip_init e req p status s =
     (let s1 = s\<lparr>calls := calls s @
                  [FIP_INIT (pool_addr p + POOL_HDR_SIZE) (req_pool_size req) (nlanes req)]\<rparr> in
      case fip_init_err e of
        Some err \<Rightarrow> ((- 1, err), s1\<lparr>fip := False\<rparr>)
      | None \<Rightarrow> ((0, status), s1\<lparr>fip := True\<rparr>))"

subsection \<open>The create handler\<close>

text \<open>
  The labels at the end of \<^verbatim>\<open>rpmemd_req_create\<close>, one function per group of labels;
  control falls through from each to the next, as in the source. The arguments are the
  local variables still live there: \<^verbatim>\<open>err_send\<close>, \<^verbatim>\<open>status\<close>, \<^verbatim>\<open>ret\<close>, and the pool
  handle \<^verbatim>\<open>rpmemd->pool\<close> where it is known to be non-null.
\<close>

definition create_err_pool_opened ::
  "env \<Rightarrow> bool \<Rightarrow> rpmem_err \<Rightarrow> int \<Rightarrow> rpmemd \<Rightarrow> int \<times> rpmemd" where
  "create_err_pool_opened e err_send status ret s =
     (case (if err_send then rpmemd_obc_create_resp e status s else (ret, s)) of
        (ret', s') \<Rightarrow> (ret', s'\<lparr>closing := True\<rparr>))"

definition create_err_pool_check ::
  "env \<Rightarrow> rpmem_req_attr \<Rightarrow> rpmemd_db_pool \<Rightarrow> bool \<Rightarrow> rpmem_err \<Rightarrow> int \<Rightarrow> rpmemd
     \<Rightarrow> int \<times> rpmemd" where
  "create_err_pool_check e req p err_send status ret s =
     create_err_pool_opened e err_send status ret
       (rpmemd_db_pool_remove (pool_desc req) (rpmemd_db_pool_close p s))"

definition create_err_create_resp ::
  "env \<Rightarrow> rpmem_req_attr \<Rightarrow> rpmemd_db_pool \<Rightarrow> bool \<Rightarrow> rpmem_err \<Rightarrow> int \<Rightarrow> rpmemd
     \<Rightarrow> int \<times> rpmemd" where
  "create_err_create_resp e req p err_send status ret s =
     create_err_pool_check e req p err_send status ret (rpmemd_fip_fini s)"

definition create_err_accept ::
  "env \<Rightarrow> rpmem_req_attr \<Rightarrow> rpmemd_db_pool \<Rightarrow> rpmem_err \<Rightarrow> int \<Rightarrow> rpmemd
     \<Rightarrow> int \<times> rpmemd" where
  "create_err_accept e req p status ret s =
     create_err_create_resp e req p False status ret s"

definition create_err_process_start ::
  "env \<Rightarrow> rpmem_req_attr \<Rightarrow> rpmemd_db_pool \<Rightarrow> rpmem_err \<Rightarrow> int \<Rightarrow> rpmemd
     \<Rightarrow> int \<times> rpmemd" where
  "create_err_process_start e req p status ret s =
     create_err_accept e req p status ret (rpmemd_fip_close s)"

text \<open>
  \<^verbatim>\<open>rpmemd_req_create\<close>. \<^verbatim>\<open>ret\<close> is not yet assigned at the first two jumps; it is
  overwritten there by the response's return value (\<^verbatim>\<open>err_send\<close> is still 1), so the
  model passes 0.
\<close>

definition rpmemd_req_create :: "env \<Rightarrow> rpmem_req_attr \<Rightarrow> rpmemd \<Rightarrow> int \<times> rpmemd" where
  "rpmemd_req_create e req s =
     (case pool s of
        Some p0 \<Rightarrow> create_err_pool_opened e True RPMEM_ERR_FATAL 0 s
      | None \<Rightarrow>
          (case rpmemd_db_pool_create e (pool_desc req) s of
             (Inl err, s1) \<Rightarrow>
               create_err_pool_opened e True (rpmemd_db_get_status err) 0 (s1\<lparr>pool := None\<rparr>)
           | (Inr p, s1) \<Rightarrow>
               (let s2 = s1\<lparr>pool := Some p\<rparr> in
                case rpmemd_check_pool p req RPMEM_SUCCESS of
                  (ret, status) \<Rightarrow>
                    if ret \<noteq> 0 then create_err_pool_check e req p True status ret s2
                    else
                      (case rpmemd_common_fip_init e req p status s2 of
                         ((ret, status), s3) \<Rightarrow>
                           if ret \<noteq> 0 then create_err_pool_check e req p True status ret s3
                           else
                             (case rpmemd_obc_create_resp e status s3 of
                                (ret, s4) \<Rightarrow>
                                  if ret \<noteq> 0
                                  then create_err_create_resp e req p False status ret s4
                                  else
                                    (case rpmemd_fip_accept e s4 of
                                       (ret, s5) \<Rightarrow>
                                         if ret \<noteq> 0
                                         then create_err_accept e req p
                                                RPMEM_ERR_FATAL_CONN ret s5
                                         else
                                           (case rpmemd_fip_process_start e s5 of
                                              (ret, s6) \<Rightarrow>
                                                if ret \<noteq> 0
                                                then create_err_process_start e req p
                                                       RPMEM_ERR_FATAL_CONN ret s6
                                                else (0, s6))))))))"

subsection \<open>The open handler\<close>

text \<open>The labels at the end of \<^verbatim>\<open>rpmemd_req_open\<close>; no label removes the pool.\<close>

definition open_err_pool_opened ::
  "env \<Rightarrow> bool \<Rightarrow> rpmem_err \<Rightarrow> int \<Rightarrow> rpmemd \<Rightarrow> int \<times> rpmemd" where
  "open_err_pool_opened e err_send status ret s =
     (case (if err_send then rpmemd_obc_open_resp e status s else (ret, s)) of
        (ret', s') \<Rightarrow> (ret', s'\<lparr>closing := True\<rparr>))"

definition open_err_pool_check ::
  "env \<Rightarrow> rpmemd_db_pool \<Rightarrow> bool \<Rightarrow> rpmem_err \<Rightarrow> int \<Rightarrow> rpmemd \<Rightarrow> int \<times> rpmemd" where
  "open_err_pool_check e p err_send status ret s =
     open_err_pool_opened e err_send status ret (rpmemd_db_pool_close p s)"

definition open_err_open_resp ::
  "env \<Rightarrow> rpmemd_db_pool \<Rightarrow> bool \<Rightarrow> rpmem_err \<Rightarrow> int \<Rightarrow> rpmemd \<Rightarrow> int \<times> rpmemd" where
  "open_err_open_resp e p err_send status ret s =
     open_err_pool_check e p err_send status ret (rpmemd_fip_fini s)"

definition open_err_accept ::
  "env \<Rightarrow> rpmemd_db_pool \<Rightarrow> rpmem_err \<Rightarrow> int \<Rightarrow> rpmemd \<Rightarrow> int \<times> rpmemd" where
  "open_err_accept e p status ret s = open_err_open_resp e p False status ret s"

definition open_err_process_start ::
  "env \<Rightarrow> rpmemd_db_pool \<Rightarrow> rpmem_err \<Rightarrow> int \<Rightarrow> rpmemd \<Rightarrow> int \<times> rpmemd" where
  "open_err_process_start e p status ret s =
     open_err_accept e p status ret (rpmemd_fip_close s)"

definition rpmemd_req_open :: "env \<Rightarrow> rpmem_req_attr \<Rightarrow> rpmemd \<Rightarrow> int \<times> rpmemd" where
  "rpmemd_req_open e req s =
     (case pool s of
        Some p0 \<Rightarrow> open_err_pool_opened e True RPMEM_ERR_FATAL 0 s
      | None \<Rightarrow>
          (case rpmemd_db_pool_open e (pool_desc req) s of
             (Inl err, s1) \<Rightarrow>
               open_err_pool_opened e True (rpmemd_db_get_status err) 0 (s1\<lparr>pool := None\<rparr>)
           | (Inr p, s1) \<Rightarrow>
               (let s2 = s1\<lparr>pool := Some p\<rparr> in
                case rpmemd_check_pool p req RPMEM_SUCCESS of
                  (ret, status) \<Rightarrow>
                    if ret \<noteq> 0 then open_err_pool_check e p True status ret s2
                    else
                      (case rpmemd_common_fip_init e req p status s2 of
                         ((ret, status), s3) \<Rightarrow>
                           if ret \<noteq> 0 then open_err_pool_check e p True status ret s3
                           else
                             (case rpmemd_obc_open_resp e status s3 of
                                (ret, s4) \<Rightarrow>
                                  if ret \<noteq> 0
                                  then open_err_open_resp e p False status ret s4
                                  else
                                    (case rpmemd_fip_accept e s4 of
                                       (ret, s5) \<Rightarrow>
                                         if ret \<noteq> 0
                                         then open_err_accept e p RPMEM_ERR_FATAL_CONN ret s5
                                         else
                                           (case rpmemd_fip_process_start e s5 of
                                              (ret, s6) \<Rightarrow>
                                                if ret \<noteq> 0
                                                then open_err_process_start e p
                                                       RPMEM_ERR_FATAL_CONN ret s6
                                                else (0, s6))))))))"

subsection \<open>The close handler and the session loop\<close>

text \<open>
  The status an \<^verbatim>\<open>int\<close> stands for when it is stored raw: 0 is success.
\<close>

definition status_of_errno :: "int \<Rightarrow> rpmem_err" where
  "status_of_errno n = (if n = 0 then RPMEM_SUCCESS else RPMEM_ERR_RAW n)"

text \<open>
  \<^verbatim>\<open>rpmemd_req_close\<close>. A failing \<^verbatim>\<open>rpmemd_fip_process_stop\<close> puts the raw \<^verbatim>\<open>errno\<close> into
  the status; the handler goes on either way.
\<close>

definition rpmemd_req_close :: "env \<Rightarrow> rpmemd \<Rightarrow> int \<times> rpmemd" where
  "rpmemd_req_close e s =
     (let s0 = s\<lparr>closing := True\<rparr> in
      case pool s0 of
        None \<Rightarrow> rpmemd_obc_close_resp e RPMEM_ERR_FATAL s0
      | Some p \<Rightarrow>
          (let s1 = rpmemd_db_pool_close p s0 in
           case rpmemd_fip_process_stop e s1 of
             (ret, s2) \<Rightarrow>
               (let status = (if ret \<noteq> 0 then status_of_errno (stop_errno e) else RPMEM_SUCCESS) in
                case rpmemd_obc_close_resp e status s2 of
                  (ret, s3) \<Rightarrow>
                    (let s4 = (if ret = 0 then rpmemd_fip_wait_close s3 else s3) in
                     (ret, rpmemd_fip_fini (rpmemd_fip_close s4))))))"

datatype request = REQ_CREATE rpmem_req_attr | REQ_OPEN rpmem_req_attr | REQ_CLOSE

text \<open>
  Modelled from the spec: \<^verbatim>\<open>rpmemd_obc_process\<close> reads the next request and dispatches it
  to the handler of its kind, through the table \<^verbatim>\<open>rpmemd_req\<close>.
\<close>

definition rpmemd_obc_process :: "env \<Rightarrow> request \<Rightarrow> rpmemd \<Rightarrow> int \<times> rpmemd" where
  "rpmemd_obc_process e r s =
     (case r of
        REQ_CREATE req \<Rightarrow> rpmemd_req_create e req s
      | REQ_OPEN req \<Rightarrow> rpmemd_req_open e req s
      | REQ_CLOSE \<Rightarrow> rpmemd_req_close e s)"

text \<open>
  The loop of \<^verbatim>\<open>main\<close> over the requests that arrive, each with the environment's
  answers while it is handled: it stops on a non-zero return and when \<^verbatim>\<open>closing\<close> is
  set. Running out of requests is the peer closing the connection.
\<close>

fun session_loop :: "(request \<times> env) list \<Rightarrow> rpmemd \<Rightarrow> rpmemd" where
  "session_loop [] s = s"
| "session_loop ((r, e) # rest) s =
     (case rpmemd_obc_process e r s of
        (ret, s') \<Rightarrow> if ret \<noteq> 0 then s' else if closing s' then s' else session_loop rest s')"

text \<open>The calls into the pool data base and the responses among a record of calls.\<close>

fun is_db_call :: "event \<Rightarrow> bool" where
  "is_db_call (DB_POOL_CREATE d) = True"
| "is_db_call (DB_POOL_OPEN d) = True"
| "is_db_call (DB_POOL_CLOSE d) = True"
| "is_db_call (DB_POOL_REMOVE d) = True"
| "is_db_call ev = False"

fun is_response :: "event \<Rightarrow> bool" where
  "is_response (OBC_CREATE_RESP st) = True"
| "is_response (OBC_OPEN_RESP st) = True"
| "is_response (OBC_CLOSE_RESP st) = True"
| "is_response ev = False"

text \<open>
  The invariant behind "at most one pool per session": whatever the data base holds open
  for this session is the pool the handle points to.
\<close>

definition one_pool :: "rpmemd \<Rightarrow> bool" where
  "one_pool s = (held s \<subseteq> (case pool s of None \<Rightarrow> {} | Some p \<Rightarrow> {pool_name p}))"

subsection \<open>Sessions, requests and environments to run the handlers on\<close>

text \<open>
  A fresh session over an empty pool set directory; one over a directory holding the pool
  \<open>p2\<close> of 4 KiB header plus 1 MiB; an environment in which every call succeeds and a
  new pool is mapped with 4 KiB plus 4 MiB; and variants with one failing call.
\<close>

definition s_init :: rpmemd where
  "s_init = \<lparr>pool = None, fip = False, closing = False,
             files = Map.empty, held = {}, calls = []\<rparr>"

definition s_with_p2 :: rpmemd where
  "s_with_p2 = s_init\<lparr>files := [''p2'' \<mapsto> 1052672]\<rparr>"

definition env_ok :: env where
  "env_ok = \<lparr>db_errno = None, db_new_size = 4198400, db_addr = 0x7f0000000000,
             fip_init_err = None, obc_resp_ret = 0, fip_accept_ret = 0,
             fip_process_start_ret = 0, fip_process_stop_ret = 0, stop_errno = 0\<rparr>"

definition env_accept_fails :: env where
  "env_accept_fails = env_ok\<lparr>fip_accept_ret := - 1\<rparr>"

definition env_start_fails :: env where
  "env_start_fails = env_ok\<lparr>fip_process_start_ret := - 1\<rparr>"

definition req_p1 :: rpmem_req_attr where
  "req_p1 = \<lparr>pool_desc = ''p1'', req_pool_size = 4194304, nlanes = 4, provider = 1\<rparr>"

definition req_p1_too_big :: rpmem_req_attr where
  "req_p1_too_big = req_p1\<lparr>req_pool_size := 4194305\<rparr>"

definition req_p2 :: rpmem_req_attr where
  "req_p2 = \<lparr>pool_desc = ''p2'', req_pool_size = 2097152, nlanes = 4, provider = 1\<rparr>"

section \<open>rpmem_ssh.c: the tunnel transport of the client\<close>

subsection \<open>Closing the tunnel\<close>

text \<open>
  The wait-status macros of the C library (\<^verbatim>\<open>sys/wait.h\<close>, as glibc defines them on
  Linux): the low seven bits hold the terminating signal (0 for a normal exit, \<^verbatim>\<open>0x7f\<close>
  for a stopped child), bit 7 the core-dump flag, the next byte the exit code.
  \<^verbatim>\<open>WIFSIGNALED\<close> is \<^verbatim>\<open>((signed char) ((status & 0x7f) + 1) >> 1) > 0\<close>.
\<close>

definition WTERMSIG :: "32 word \<Rightarrow> 32 word" where
  "WTERMSIG status = status AND 0x7f"

definition WEXITSTATUS :: "32 word \<Rightarrow> 32 word" where
  "WEXITSTATUS status = drop_bit 8 (status AND 0xff00)"

definition WIFEXITED :: "32 word \<Rightarrow> bool" where
  "WIFEXITED status = (WTERMSIG status = 0)"

definition WIFSIGNALED :: "32 word \<Rightarrow> bool" where
  "WIFSIGNALED status =
     (0 < sint (signed_drop_bit 1 (ucast ((status AND 0x7f) + 1) :: 8 word)))"

text \<open>The status the kernel builds for an exit code and a signal (\<^verbatim>\<open>__W_EXITCODE\<close>).\<close>

definition W_EXITCODE :: "32 word \<Rightarrow> 32 word \<Rightarrow> 32 word" where
  "W_EXITCODE ret sig = push_bit 8 ret OR sig"

datatype ssh_log = LOG_SIGNAL "32 word" | LOG_EXIT_STATUS "32 word"

text \<open>
  \<^verbatim>\<open>rpmem_ssh_close\<close>, from the point where \<^verbatim>\<open>rpmem_cmd_wait\<close> has stored the child's
  wait status in \<^verbatim>\<open>ret\<close>. The result is the return value and the error messages
  logged: \<^verbatim>\<open>"signal received -- %d"\<close> and \<^verbatim>\<open>"exit status -- %d"\<close> with their argument.
\<close>

definition rpmem_ssh_close :: "32 word \<Rightarrow> 32 word \<times> ssh_log list" where
  "rpmem_ssh_close ret =
     (if WIFEXITED ret then (0, [])
      else if WIFSIGNALED ret then (ret, [LOG_SIGNAL (WTERMSIG ret)])
      else (ret, [LOG_EXIT_STATUS (WEXITSTATUS ret)]))"

subsection \<open>Monitoring the connection\<close>

definition MSG_PEEK :: "32 word" where "MSG_PEEK = 0x02"
definition MSG_DONTWAIT :: "32 word" where "MSG_DONTWAIT = 0x40"

text \<open>
  Modelled from the spec: \<^verbatim>\<open>rpmem_xread\<close> is not among the sources. It moves the whole
  buffer or reports a terminal condition; its callers in \<^verbatim>\<open>rpmem_ssh.c\<close> read the
  return value as 0 for a complete read, 1 for a peer that closed (which
  \<^verbatim>\<open>rpmem_ssh_recv\<close> turns into \<^verbatim>\<open>ECONNRESET\<close>) and a negative value for a failure
  that has set \<^verbatim>\<open>errno\<close>. What the descriptor has to offer is the \<open>outcome\<close>; the result
  is the return value and \<^verbatim>\<open>errno\<close> afterwards.
\<close>

datatype xread_outcome = XREAD_DATA | XREAD_EOF | XREAD_FAIL int

definition rpmem_xread :: "32 word \<Rightarrow> xread_outcome \<Rightarrow> int \<Rightarrow> int \<times> int" where
  "rpmem_xread flags outcome errno =
     (case outcome of
        XREAD_DATA \<Rightarrow> (0, errno)
      | XREAD_EOF \<Rightarrow> (1, errno)
      | XREAD_FAIL err \<Rightarrow> (- 1, err))"

text \<open>\<^verbatim>\<open>rpmem_ssh_monitor\<close>: the return value and \<^verbatim>\<open>errno\<close> afterwards.\<close>

definition rpmem_ssh_monitor :: "bool \<Rightarrow> xread_outcome \<Rightarrow> int \<Rightarrow> int \<times> int" where
  "rpmem_ssh_monitor nonblock outcome errno =
     (let flags = (if nonblock then MSG_PEEK OR MSG_DONTWAIT else MSG_PEEK) in
      case rpmem_xread flags outcome errno of
        (ret, errno1) \<Rightarrow>
          if ret = 0 then (- 1, EPROTO)
          else if ret < 0 then
            (if errno1 = EAGAIN \<or> errno1 = EWOULDBLOCK then (1, errno1) else (ret, errno1))
          else (0, errno1))"

subsection \<open>Reading the error text\<close>

definition ERR_BUFF_SIZE :: nat where "ERR_BUFF_SIZE = 4095"

definition NUL :: char where "NUL = CHR 0x00"
definition CR :: char where "CR = CHR 0x0D"
definition LF :: char where "LF = CHR 0x0A"

text \<open>The C string a buffer holds: its bytes before the first NUL.\<close>

definition c_str :: "char list \<Rightarrow> string" where
  "c_str buf = takeWhile (\<lambda>c. c \<noteq> NUL) buf"

text \<open>
  \<^verbatim>\<open>strchr\<close> for a character other than NUL: the index of its first occurrence in the
  string, none if the terminator comes first.
\<close>

fun strchr :: "char list \<Rightarrow> char \<Rightarrow> nat option" where
  "strchr [] c = None"
| "strchr (x # xs) c =
     (if x = c then Some 0
      else if x = NUL then None
      else map_option Suc (strchr xs c))"

text \<open>The idiom \<^verbatim>\<open>p = strchr(buf, c); if (p) *p = '\0';\<close>.\<close>

definition terminate_at :: "char list \<Rightarrow> char \<Rightarrow> char list" where
  "terminate_at buf c = (case strchr buf c of Some i \<Rightarrow> buf[i := NUL] | None \<Rightarrow> buf)"

text \<open>
  \<^verbatim>\<open>snprintf(buf, n, "%s", msg)\<close>: at most \<open>n - 1\<close> bytes of the message and a
  terminator, over the beginning of the buffer.
\<close>

definition snprintf_s :: "char list \<Rightarrow> nat \<Rightarrow> string \<Rightarrow> char list" where
  "snprintf_s buf n msg =
     (if n = 0 then buf
      else (let out = take (n - 1) (c_str msg) @ [NUL] in out @ drop (length out) buf))"

datatype read_result = READ_FAILED int | READ_BYTES "char list"

text \<open>
  \<^verbatim>\<open>rpmem_ssh_strerror\<close>. \<open>error_str\<close> is the static buffer as the call finds it, \<open>rd\<close>
  what \<^verbatim>\<open>read\<close> on the child's standard error delivers (it stores at most
  \<^verbatim>\<open>ERR_BUFF_SIZE\<close> bytes over the beginning of the buffer and writes no terminator),
  \<open>errno\<close> the error number stored when the call is made. \<^verbatim>\<open>util_strerror\<close> is not among
  the sources: the message it produces for an error number is the parameter of that
  name. The result is the string returned and the buffer afterwards.
\<close>

definition rpmem_ssh_strerror ::
  "(int \<Rightarrow> string) \<Rightarrow> char list \<Rightarrow> read_result \<Rightarrow> int \<Rightarrow> string \<times> char list" where
  "rpmem_ssh_strerror util_strerror error_str rd errno =
     (case rd of
        READ_FAILED err \<Rightarrow> (''reading error string failed'', error_str)
      | READ_BYTES bytes \<Rightarrow>
          (let data = take ERR_BUFF_SIZE bytes;
               ret = length data;
               buf = data @ drop ret error_str
           in if ret = 0 then
                (let buf' = (if errno \<noteq> 0
                             then snprintf_s buf ERR_BUFF_SIZE (util_strerror errno)
                             else snprintf_s buf ERR_BUFF_SIZE ''unknown error'')
                 in (c_str buf', buf'))
              else
                (let buf1 = terminate_at buf CR;
                     buf2 = terminate_at buf1 LF
                 in (c_str buf2, buf2))))"

text \<open>The static buffer before the first call: \<^verbatim>\<open>ERR_BUFF_SIZE + 1\<close> zero bytes.\<close>

definition fresh_error_str :: "char list" where
  "fresh_error_str = replicate (ERR_BUFF_SIZE + 1) NUL"

text \<open>
  What the specification says of the error text, for comparison with the code: the text
  with its trailing CR and LF bytes stripped, and the last line of that.
\<close>

definition strip_trailing_crlf :: "string \<Rightarrow> string" where
  "strip_trailing_crlf t = rev (dropWhile (\<lambda>c. c = CR \<or> c = LF) (rev t))"

definition last_line_trimmed :: "string \<Rightarrow> string" where
  "last_line_trimmed t =
     rev (takeWhile (\<lambda>c. c \<noteq> CR \<and> c \<noteq> LF) (rev (strip_trailing_crlf t)))"

section \<open>Unfolding the model\<close>

lemmas prim_defs =
  rpmemd_db_pool_create_def rpmemd_db_pool_open_def rpmemd_db_pool_close_def
  rpmemd_db_pool_remove_def rpmemd_fip_accept_def rpmemd_fip_process_start_def
  rpmemd_fip_process_stop_def rpmemd_fip_wait_close_def rpmemd_fip_close_def
  rpmemd_fip_fini_def rpmemd_obc_create_resp_def rpmemd_obc_open_resp_def
  rpmemd_obc_close_resp_def rpmemd_common_fip_init_def

lemmas create_defs =
  rpmemd_req_create_def create_err_pool_opened_def create_err_pool_check_def
  create_err_create_resp_def create_err_accept_def create_err_process_start_def

lemmas open_defs =
  rpmemd_req_open_def open_err_pool_opened_def open_err_pool_check_def
  open_err_open_resp_def open_err_accept_def open_err_process_start_def

lemmas example_defs =
  s_init_def s_with_p2_def env_ok_def env_accept_fails_def env_start_fails_def
  req_p1_def req_p1_too_big_def req_p2_def

section \<open>Properties of the error mapping and the size check\<close>

text \<open>
  C3. The pool data base's error numbers map to the protocol status as: EEXIST to
  EXISTS, EACCES to NOACCESS, ENOENT to NOEXIST, EWOULDBLOCK to BUSY, and every other
  error number to FATAL.
\<close>

theorem rpmemd_db_get_status_table:
  "rpmemd_db_get_status EEXIST = RPMEM_ERR_EXISTS \<and>
   rpmemd_db_get_status EACCES = RPMEM_ERR_NOACCESS \<and>
   rpmemd_db_get_status ENOENT = RPMEM_ERR_NOEXIST \<and>
   rpmemd_db_get_status EWOULDBLOCK = RPMEM_ERR_BUSY \<and>
   (err \<noteq> EEXIST \<and> err \<noteq> EACCES \<and> err \<noteq> ENOENT \<and> err \<noteq> EWOULDBLOCK \<longrightarrow>
      rpmemd_db_get_status err = RPMEM_ERR_FATAL)"
  by (simp add: rpmemd_db_get_status_def EEXIST_def EACCES_def ENOENT_def EWOULDBLOCK_def)

theorem rpmemd_db_get_status_table_witness:
  "(5::int) \<noteq> EEXIST \<and> 5 \<noteq> EACCES \<and> 5 \<noteq> ENOENT \<and> 5 \<noteq> EWOULDBLOCK \<and>
   rpmemd_db_get_status 5 = RPMEM_ERR_FATAL \<and>
   rpmemd_db_get_status 17 = RPMEM_ERR_EXISTS"
  using rpmemd_db_get_status_table [of 5]
  by (simp add: EEXIST_def EACCES_def ENOENT_def EWOULDBLOCK_def)


lemma uint_sub_hdr_lt:
  "(x::64 word) < POOL_HDR_SIZE \<Longrightarrow>
   uint (x - POOL_HDR_SIZE) = uint x + 2 ^ 64 - uint POOL_HDR_SIZE"
  by (simp add: uint_sub_if' word_less_def)

lemma check_pool_accepts:
  "(fst (rpmemd_check_pool p req st) = 0) =
   (uint (req_pool_size req) \<le> uint (pool_size p - POOL_HDR_SIZE))"
  by (simp add: rpmemd_check_pool_def word_less_def not_less)

lemma check_pool_cases:
  "rpmemd_check_pool p req st =
     (if uint (req_pool_size req) \<le> uint (pool_size p - POOL_HDR_SIZE)
      then (0, st) else (- 1, RPMEM_ERR_BADSIZE))"
  by (simp add: rpmemd_check_pool_def word_less_def not_less)



text \<open>
  C10. When the pool's mapped size is smaller than \<open>HEADER_SIZE\<close>, the size check's
  subtraction wraps modulo \<open>2 ^ 64\<close>: the requested size is compared with
  \<open>pool_size + 2 ^ 64 - HEADER_SIZE\<close>, so every requested size up to
  \<open>2 ^ 64 - HEADER_SIZE\<close>, far larger than the file, is accepted instead of being
  rejected with BADSIZE.
\<close>

theorem rpmemd_check_pool_wraps:
  assumes "pool_size p < POOL_HDR_SIZE"
  shows "uint (pool_size p - POOL_HDR_SIZE) = uint (pool_size p) + 2 ^ 64 - uint POOL_HDR_SIZE \<and>
         ((fst (rpmemd_check_pool p req st) = 0) =
            (uint (req_pool_size req) \<le> uint (pool_size p) + 2 ^ 64 - uint POOL_HDR_SIZE)) \<and>
         (uint (req_pool_size req) \<le> 2 ^ 64 - uint POOL_HDR_SIZE \<longrightarrow>
            rpmemd_check_pool p req st = (0, st))"
proof -
  have sub: "uint (pool_size p - POOL_HDR_SIZE) = uint (pool_size p) + 2 ^ 64 - uint POOL_HDR_SIZE"
    using assms by (rule uint_sub_hdr_lt)
  have a: "(fst (rpmemd_check_pool p req st) = 0) =
            (uint (req_pool_size req) \<le> uint (pool_size p) + 2 ^ 64 - uint POOL_HDR_SIZE)"
    by (simp only: check_pool_accepts sub)
  have nn: "0 \<le> uint (pool_size p)" by simp
  have b: "uint (req_pool_size req) \<le> 2 ^ 64 - uint POOL_HDR_SIZE \<longrightarrow>
            rpmemd_check_pool p req st = (0, st)"
  proof
    assume "uint (req_pool_size req) \<le> 2 ^ 64 - uint POOL_HDR_SIZE"
    with nn have "uint (req_pool_size req) \<le> uint (pool_size p) + 2 ^ 64 - uint POOL_HDR_SIZE"
      by linarith
    then show "rpmemd_check_pool p req st = (0, st)"
      by (simp only: check_pool_cases sub if_True)
  qed
  from sub a b show ?thesis by blast
qed

theorem rpmemd_check_pool_wraps_witness:
  "(100 :: 64 word) < POOL_HDR_SIZE \<and>
   uint ((100 :: 64 word) - POOL_HDR_SIZE) = 18446744073709547620 \<and>
   rpmemd_check_pool \<lparr>pool_name = ''p1'', pool_addr = 0, pool_size = 100\<rparr>
      \<lparr>pool_desc = ''p1'', req_pool_size = 1099511627776, nlanes = 4, provider = 1\<rparr> RPMEM_SUCCESS
     = (0, RPMEM_SUCCESS) \<and>
   filter is_response
     (calls (snd (rpmemd_req_create (env_ok\<lparr>db_new_size := 100\<rparr>)
                    (req_p1\<lparr>req_pool_size := 1099511627776\<rparr>) s_init))) =
     [OBC_CREATE_RESP RPMEM_SUCCESS]"
proof -
  let ?p = "\<lparr>pool_name = ''p1'', pool_addr = 0, pool_size = 100\<rparr>"
  let ?r = "\<lparr>pool_desc = ''p1'', req_pool_size = 1099511627776, nlanes = 4, provider = 1\<rparr>"
  have h: "pool_size ?p < POOL_HDR_SIZE"
    by (simp add: POOL_HDR_SIZE_def)
  have far: "uint (req_pool_size ?r) \<le> 2 ^ 64 - uint POOL_HDR_SIZE"
    by (simp add: POOL_HDR_SIZE_def)
  from rpmemd_check_pool_wraps [OF h, of ?r RPMEM_SUCCESS] far
  have "rpmemd_check_pool ?p ?r RPMEM_SUCCESS = (0, RPMEM_SUCCESS)"
    by blast
  moreover have "(100 :: 64 word) < POOL_HDR_SIZE"
    by (simp add: POOL_HDR_SIZE_def)
  moreover have "uint ((100 :: 64 word) - POOL_HDR_SIZE) = 18446744073709547620"
    by (simp add: POOL_HDR_SIZE_def)
  moreover have "filter is_response
     (calls (snd (rpmemd_req_create (env_ok\<lparr>db_new_size := 100\<rparr>)
                    (req_p1\<lparr>req_pool_size := 1099511627776\<rparr>) s_init))) =
     [OBC_CREATE_RESP RPMEM_SUCCESS]"
    by (simp add: create_defs prim_defs example_defs rpmemd_check_pool_def POOL_HDR_SIZE_def)
  ultimately show ?thesis by blast
qed


section \<open>Properties of the request handlers\<close>

subsection \<open>What a successful call into the pool data base tells\<close>

lemma db_create_ok:
  assumes "rpmemd_db_pool_create e d s = (Inr p, s1)"
  shows "files s d = None" and "db_errno e = None"
    and "p = \<lparr>pool_name = d, pool_addr = db_addr e, pool_size = db_new_size e\<rparr>"
    and "s1 = s\<lparr>calls := calls s @ [DB_POOL_CREATE d],
                 files := (files s)(d \<mapsto> db_new_size e), held := insert d (held s)\<rparr>"
  using assms
  by (auto simp: rpmemd_db_pool_create_def Let_def split: option.splits)

lemma db_open_ok:
  assumes "rpmemd_db_pool_open e d s = (Inr p, s1)"
  shows "files s d = Some (pool_size p)" and "d \<notin> held s" and "db_errno e = None"
    and "pool_name p = d"
    and "s1 = s\<lparr>calls := calls s @ [DB_POOL_OPEN d], held := insert d (held s)\<rparr>"
  using assms
  by (auto simp: rpmemd_db_pool_open_def Let_def split: option.splits if_splits)

subsection \<open>The cleanup ladders from the pool check downwards\<close>

lemma create_err_pool_check_effect:
  assumes "pool_name p = pool_desc req"
  shows "create_err_pool_check e req p err_send status ret s =
     (if err_send then obc_resp_ret e else ret,
      s\<lparr>held := held s - {pool_desc req},
        files := (files s)(pool_desc req := None),
        calls := calls s @ [DB_POOL_CLOSE (pool_desc req), DB_POOL_REMOVE (pool_desc req)]
                  @ (if err_send then [OBC_CREATE_RESP status] else []),
        closing := True\<rparr>)"
  using assms
  by (simp add: create_err_pool_check_def create_err_pool_opened_def prim_defs Let_def)

lemma open_err_pool_check_effect:
  "open_err_pool_check e p err_send status ret s =
     (if err_send then obc_resp_ret e else ret,
      s\<lparr>held := held s - {pool_name p},
        calls := calls s @ [DB_POOL_CLOSE (pool_name p)]
                  @ (if err_send then [OBC_OPEN_RESP status] else []),
        closing := True\<rparr>)"
  by (simp add: open_err_pool_check_def open_err_pool_opened_def prim_defs Let_def)

subsection \<open>The guards\<close>

lemma guard_create:
  "pool s = Some p0 \<Longrightarrow> rpmemd_req_create e req s =
     (obc_resp_ret e, s\<lparr>calls := calls s @ [OBC_CREATE_RESP RPMEM_ERR_FATAL], closing := True\<rparr>)"
  by (simp add: create_defs prim_defs)

lemma guard_open:
  "pool s = Some p0 \<Longrightarrow> rpmemd_req_open e req s =
     (obc_resp_ret e, s\<lparr>calls := calls s @ [OBC_OPEN_RESP RPMEM_ERR_FATAL], closing := True\<rparr>)"
  by (simp add: open_defs prim_defs)

lemma guard_close:
  "pool s = None \<Longrightarrow> rpmemd_req_close e s =
     (obc_resp_ret e, s\<lparr>closing := True, calls := calls s @ [OBC_CLOSE_RESP RPMEM_ERR_FATAL]\<rparr>)"
  by (simp add: rpmemd_req_close_def prim_defs)

subsection \<open>One pool per session\<close>

lemma one_pool_create:
  "one_pool s \<Longrightarrow> one_pool (snd (rpmemd_req_create e req s))"
  by (auto simp: one_pool_def create_defs prim_defs Let_def
        split: option.splits prod.splits sum.splits if_splits)

lemma one_pool_open:
  "one_pool s \<Longrightarrow> one_pool (snd (rpmemd_req_open e req s))"
  by (auto simp: one_pool_def open_defs prim_defs Let_def
        split: option.splits prod.splits sum.splits if_splits)

lemma one_pool_close:
  "one_pool s \<Longrightarrow> one_pool (snd (rpmemd_req_close e s))"
  by (auto simp: one_pool_def rpmemd_req_close_def prim_defs Let_def
        split: option.splits prod.splits sum.splits if_splits)

lemma one_pool_process:
  "one_pool s \<Longrightarrow> one_pool (snd (rpmemd_obc_process e r s))"
  by (cases r) (simp_all add: rpmemd_obc_process_def one_pool_create one_pool_open one_pool_close)

lemma one_pool_session_loop:
  "one_pool s \<Longrightarrow> one_pool (session_loop inputs s)"
proof (induction inputs arbitrary: s)
  case Nil
  then show ?case by simp
next
  case (Cons a inputs)
  obtain r e where a: "a = (r, e)" by (cases a)
  obtain ret s' where step: "rpmemd_obc_process e r s = (ret, s')"
    by (cases "rpmemd_obc_process e r s")
  from one_pool_process [OF Cons.prems, of e r] step have inv: "one_pool s'" by simp
  show ?case
    using Cons.IH [OF inv] inv by (simp add: a step)
qed

lemma one_pool_card:
  "one_pool s \<Longrightarrow> finite (held s) \<and> card (held s) \<le> 1"
proof -
  assume "one_pool s"
  then obtain d where sub: "held s \<subseteq> {d}"
    by (auto simp: one_pool_def split: option.splits)
  then have fin: "finite (held s)" by (rule finite_subset) simp
  from sub have "card (held s) \<le> card {d}" by (intro card_mono) simp_all
  with fin show ?thesis by simp
qed

text \<open>
  C1, as stated, fails. A create request on a fresh session: the pool is created, the
  response with status 0 is sent, then the fabric accept fails. The handler falls through
  all the cleanup labels, so the pool is closed and removed: the backing file \<open>p1\<close>
  created by this request does not exist afterwards.
\<close>

theorem create_accept_failure_counterexample:
  "calls (snd (rpmemd_req_create env_accept_fails req_p1 s_init)) =
     [DB_POOL_CREATE ''p1'', FIP_INIT 0x7f0000001000 4194304 4, OBC_CREATE_RESP RPMEM_SUCCESS,
      FIP_ACCEPT, FIP_FINI, DB_POOL_CLOSE ''p1'', DB_POOL_REMOVE ''p1''] \<and>
   closing (snd (rpmemd_req_create env_accept_fails req_p1 s_init)) \<and>
   files (snd (rpmemd_req_create env_accept_fails req_p1 s_init)) ''p1'' = None"
  by (simp add: create_defs prim_defs example_defs rpmemd_check_pool_def POOL_HDR_SIZE_def)

text \<open>
  C1, amended. During the create flow, if fabric accept or fabric process-start fails
  after the create-response was successfully sent, the handler returns non-zero and the
  session moves to closing without sending a second response, and the pool is closed and
  removed: the backing file created by this request no longer exists afterwards and is
  not held open.
\<close>

theorem create_accept_failure_removes_pool:
  assumes "pool s = None"
    and "rpmemd_db_pool_create e (pool_desc req) s = (Inr p, s1)"
    and "fst (rpmemd_check_pool p req RPMEM_SUCCESS) = 0"
    and "fip_init_err e = None"
    and "obc_resp_ret e = 0"
    and "fip_accept_ret e \<noteq> 0 \<or> fip_process_start_ret e \<noteq> 0"
  shows "closing (snd (rpmemd_req_create e req s)) \<and>
         fst (rpmemd_req_create e req s) \<noteq> 0 \<and>
         filter is_response (calls (snd (rpmemd_req_create e req s))) =
           filter is_response (calls s) @ [OBC_CREATE_RESP RPMEM_SUCCESS] \<and>
         filter is_db_call (calls (snd (rpmemd_req_create e req s))) =
           filter is_db_call (calls s) @
             [DB_POOL_CREATE (pool_desc req), DB_POOL_CLOSE (pool_desc req),
              DB_POOL_REMOVE (pool_desc req)] \<and>
         files (snd (rpmemd_req_create e req s)) (pool_desc req) = None \<and>
         pool_desc req \<notin> held (snd (rpmemd_req_create e req s))"
proof -
  note ok = db_create_ok [OF assms(2)]
  have nm: "pool_name p = pool_desc req" using ok(3) by simp
  have chk: "rpmemd_check_pool p req RPMEM_SUCCESS = (0, RPMEM_SUCCESS)"
    using assms(3) by (auto simp: rpmemd_check_pool_def split: if_splits)
  show ?thesis
    using assms(1,4,5,6) assms(2) chk
    by (auto simp: rpmemd_req_create_def create_err_create_resp_def create_err_accept_def
          create_err_process_start_def create_err_pool_check_effect [OF nm] ok(4)
          rpmemd_common_fip_init_def rpmemd_obc_create_resp_def rpmemd_fip_accept_def
          rpmemd_fip_process_start_def rpmemd_fip_fini_def rpmemd_fip_close_def Let_def
          split: option.splits prod.splits)
qed

theorem create_accept_failure_removes_pool_witness:
  "pool s_init = None \<and>
   fst (rpmemd_check_pool
          \<lparr>pool_name = ''p1'', pool_addr = 0x7f0000000000, pool_size = 4198400\<rparr>
          req_p1 RPMEM_SUCCESS) = 0 \<and>
   fip_init_err env_start_fails = None \<and> obc_resp_ret env_start_fails = 0 \<and>
   fip_process_start_ret env_start_fails \<noteq> 0 \<and>
   closing (snd (rpmemd_req_create env_start_fails req_p1 s_init)) \<and>
   fst (rpmemd_req_create env_start_fails req_p1 s_init) \<noteq> 0 \<and>
   files (snd (rpmemd_req_create env_start_fails req_p1 s_init)) ''p1'' = None \<and>
   ''p1'' \<notin> held (snd (rpmemd_req_create env_start_fails req_p1 s_init))"
proof -
  let ?p = "\<lparr>pool_name = ''p1'', pool_addr = 0x7f0000000000, pool_size = 4198400\<rparr>"
  let ?s1 = "s_init\<lparr>calls := calls s_init @ [DB_POOL_CREATE ''p1''],
                   files := (files s_init)(''p1'' \<mapsto> db_new_size env_start_fails),
                   held := insert ''p1'' (held s_init)\<rparr>"
  have h1: "pool s_init = None" by (simp add: s_init_def)
  have h2: "rpmemd_db_pool_create env_start_fails (pool_desc req_p1) s_init = (Inr ?p, ?s1)"
    by (simp add: rpmemd_db_pool_create_def example_defs)
  have h3: "fst (rpmemd_check_pool ?p req_p1 RPMEM_SUCCESS) = 0"
    by (simp add: rpmemd_check_pool_def POOL_HDR_SIZE_def req_p1_def)
  have h4: "fip_init_err env_start_fails = None" by (simp add: example_defs)
  have h5: "obc_resp_ret env_start_fails = 0" by (simp add: example_defs)
  have h6': "fip_process_start_ret env_start_fails \<noteq> 0" by (simp add: example_defs)
  then have h6: "fip_accept_ret env_start_fails \<noteq> 0 \<or> fip_process_start_ret env_start_fails \<noteq> 0"
    by (rule disjI2)
  have d: "pool_desc req_p1 = ''p1''" by (simp add: req_p1_def)
  note t = create_accept_failure_removes_pool [OF h1 h2 h3 h4 h5 h6, unfolded d]
  from t h1 h3 h4 h5 h6' show ?thesis by blast
qed

text \<open>
  C2. For every create request in which the pool backing file is successfully created but
  a later step of the create flow fails (size check, fabric init, response send, fabric
  accept or process start), the pool is both closed and removed: the calls into the pool
  data base are create, close, remove, the session is closing, and afterwards the
  backing file does not exist and is not held open.
\<close>

theorem create_failure_removes_pool:
  assumes "pool s = None"
    and "rpmemd_db_pool_create e (pool_desc req) s = (Inr p, s1)"
    and "fst (rpmemd_check_pool p req RPMEM_SUCCESS) \<noteq> 0 \<or> fip_init_err e \<noteq> None \<or>
         obc_resp_ret e \<noteq> 0 \<or> fip_accept_ret e \<noteq> 0 \<or> fip_process_start_ret e \<noteq> 0"
  shows "files (snd (rpmemd_req_create e req s)) (pool_desc req) = None \<and>
         pool_desc req \<notin> held (snd (rpmemd_req_create e req s)) \<and>
         closing (snd (rpmemd_req_create e req s)) \<and>
         filter is_db_call (calls (snd (rpmemd_req_create e req s))) =
           filter is_db_call (calls s) @
             [DB_POOL_CREATE (pool_desc req), DB_POOL_CLOSE (pool_desc req),
              DB_POOL_REMOVE (pool_desc req)]"
proof -
  note ok = db_create_ok [OF assms(2)]
  have nm: "pool_name p = pool_desc req" using ok(3) by simp
  show ?thesis
    using assms(1,3) assms(2)
    by (auto simp: rpmemd_req_create_def create_err_create_resp_def create_err_accept_def
          create_err_process_start_def create_err_pool_check_effect [OF nm] ok(4)
          rpmemd_common_fip_init_def rpmemd_obc_create_resp_def rpmemd_fip_accept_def
          rpmemd_fip_process_start_def rpmemd_fip_fini_def rpmemd_fip_close_def Let_def
          split: option.splits prod.splits)
qed

theorem create_failure_removes_pool_witness:
  "pool s_init = None \<and>
   rpmemd_check_pool
     \<lparr>pool_name = ''p1'', pool_addr = 0x7f0000000000, pool_size = 4198400\<rparr>
     req_p1_too_big RPMEM_SUCCESS = (- 1, RPMEM_ERR_BADSIZE) \<and>
   files (snd (rpmemd_req_create env_ok req_p1_too_big s_init)) ''p1'' = None \<and>
   ''p1'' \<notin> held (snd (rpmemd_req_create env_ok req_p1_too_big s_init)) \<and>
   closing (snd (rpmemd_req_create env_ok req_p1_too_big s_init)) \<and>
   filter is_db_call (calls (snd (rpmemd_req_create env_ok req_p1_too_big s_init))) =
     [DB_POOL_CREATE ''p1'', DB_POOL_CLOSE ''p1'', DB_POOL_REMOVE ''p1'']"
proof -
  let ?p = "\<lparr>pool_name = ''p1'', pool_addr = 0x7f0000000000, pool_size = 4198400\<rparr>"
  let ?s1 = "s_init\<lparr>calls := calls s_init @ [DB_POOL_CREATE ''p1''],
                   files := (files s_init)(''p1'' \<mapsto> db_new_size env_ok),
                   held := insert ''p1'' (held s_init)\<rparr>"
  have h1: "pool s_init = None" by (simp add: s_init_def)
  have h2: "rpmemd_db_pool_create env_ok (pool_desc req_p1_too_big) s_init = (Inr ?p, ?s1)"
    by (simp add: rpmemd_db_pool_create_def example_defs)
  have chk: "rpmemd_check_pool ?p req_p1_too_big RPMEM_SUCCESS = (- 1, RPMEM_ERR_BADSIZE)"
    by (simp add: rpmemd_check_pool_def POOL_HDR_SIZE_def example_defs)
  then have "fst (rpmemd_check_pool ?p req_p1_too_big RPMEM_SUCCESS) \<noteq> 0" by simp
  then have h3: "fst (rpmemd_check_pool ?p req_p1_too_big RPMEM_SUCCESS) \<noteq> 0 \<or>
      fip_init_err env_ok \<noteq> None \<or> obc_resp_ret env_ok \<noteq> 0 \<or>
      fip_accept_ret env_ok \<noteq> 0 \<or> fip_process_start_ret env_ok \<noteq> 0"
    by (rule disjI1)
  have d: "pool_desc req_p1_too_big = ''p1''" by (simp add: example_defs)
  have c0: "filter is_db_call (calls s_init) @
              [DB_POOL_CREATE ''p1'', DB_POOL_CLOSE ''p1'', DB_POOL_REMOVE ''p1''] =
            [DB_POOL_CREATE ''p1'', DB_POOL_CLOSE ''p1'', DB_POOL_REMOVE ''p1'']"
    by (simp add: s_init_def)
  note t = create_failure_removes_pool [OF h1 h2 h3, unfolded d c0]
  from t h1 chk show ?thesis by blast
qed

text \<open>
  C5. For every open request in which the pool is successfully opened but a later step
  fails (size check, fabric init, response send, fabric accept or process start), the
  pool is closed but its backing file is not removed: the calls into the pool data base
  are open and close, no file is touched, the backing file still exists and is no longer
  held open by the daemon.
\<close>

theorem open_failure_keeps_pool:
  assumes "pool s = None"
    and "rpmemd_db_pool_open e (pool_desc req) s = (Inr p, s1)"
    and "fst (rpmemd_check_pool p req RPMEM_SUCCESS) \<noteq> 0 \<or> fip_init_err e \<noteq> None \<or>
         obc_resp_ret e \<noteq> 0 \<or> fip_accept_ret e \<noteq> 0 \<or> fip_process_start_ret e \<noteq> 0"
  shows "files (snd (rpmemd_req_open e req s)) = files s \<and>
         files (snd (rpmemd_req_open e req s)) (pool_desc req) = Some (pool_size p) \<and>
         pool_desc req \<notin> held (snd (rpmemd_req_open e req s)) \<and>
         closing (snd (rpmemd_req_open e req s)) \<and>
         filter is_db_call (calls (snd (rpmemd_req_open e req s))) =
           filter is_db_call (calls s) @
             [DB_POOL_OPEN (pool_desc req), DB_POOL_CLOSE (pool_desc req)]"
proof -
  note ok = db_open_ok [OF assms(2)]
  show ?thesis
    using assms(1,3) assms(2) ok(1,2,4)
    by (auto simp: rpmemd_req_open_def open_err_open_resp_def open_err_accept_def
          open_err_process_start_def open_err_pool_check_effect ok(5)
          rpmemd_common_fip_init_def rpmemd_obc_open_resp_def rpmemd_fip_accept_def
          rpmemd_fip_process_start_def rpmemd_fip_fini_def rpmemd_fip_close_def Let_def
          split: option.splits prod.splits)
qed

theorem open_failure_keeps_pool_witness:
  "pool s_with_p2 = None \<and>
   rpmemd_check_pool
     \<lparr>pool_name = ''p2'', pool_addr = 0x7f0000000000, pool_size = 1052672\<rparr>
     req_p2 RPMEM_SUCCESS = (- 1, RPMEM_ERR_BADSIZE) \<and>
   files (snd (rpmemd_req_open env_ok req_p2 s_with_p2)) ''p2'' = Some 1052672 \<and>
   ''p2'' \<notin> held (snd (rpmemd_req_open env_ok req_p2 s_with_p2)) \<and>
   closing (snd (rpmemd_req_open env_ok req_p2 s_with_p2)) \<and>
   filter is_db_call (calls (snd (rpmemd_req_open env_ok req_p2 s_with_p2))) =
     [DB_POOL_OPEN ''p2'', DB_POOL_CLOSE ''p2'']"
proof -
  let ?p = "\<lparr>pool_name = ''p2'', pool_addr = 0x7f0000000000, pool_size = 1052672\<rparr>"
  let ?s1 = "s_with_p2\<lparr>calls := calls s_with_p2 @ [DB_POOL_OPEN ''p2''],
                      held := insert ''p2'' (held s_with_p2)\<rparr>"
  have h1: "pool s_with_p2 = None" by (simp add: example_defs)
  have h2: "rpmemd_db_pool_open env_ok (pool_desc req_p2) s_with_p2 = (Inr ?p, ?s1)"
    by (simp add: rpmemd_db_pool_open_def example_defs)
  have chk: "rpmemd_check_pool ?p req_p2 RPMEM_SUCCESS = (- 1, RPMEM_ERR_BADSIZE)"
    by (simp add: rpmemd_check_pool_def POOL_HDR_SIZE_def example_defs)
  then have "fst (rpmemd_check_pool ?p req_p2 RPMEM_SUCCESS) \<noteq> 0" by simp
  then have h3: "fst (rpmemd_check_pool ?p req_p2 RPMEM_SUCCESS) \<noteq> 0 \<or>
      fip_init_err env_ok \<noteq> None \<or> obc_resp_ret env_ok \<noteq> 0 \<or>
      fip_accept_ret env_ok \<noteq> 0 \<or> fip_process_start_ret env_ok \<noteq> 0"
    by (rule disjI1)
  have d: "pool_desc req_p2 = ''p2''" by (simp add: example_defs)
  have sz: "pool_size ?p = 1052672" by simp
  have c0: "filter is_db_call (calls s_with_p2) @ [DB_POOL_OPEN ''p2'', DB_POOL_CLOSE ''p2''] =
            [DB_POOL_OPEN ''p2'', DB_POOL_CLOSE ''p2'']"
    by (simp add: example_defs)
  note t = open_failure_keeps_pool [OF h1 h2 h3, unfolded d c0 sz]
  from t h1 chk show ?thesis by blast
qed

text \<open>
  C6. At most one pool is open per session, and guards enforce it: a create or open
  request arriving while the session already has a pool is answered with status FATAL
  and nothing else happens (no call into the pool data base or the fabric; the session
  is closing); a close request arriving with no pool open is answered with status FATAL
  and the handler returns what sending the response returned. Over any sequence of
  requests from a session with no pool, the data base never holds more than one pool.
\<close>

theorem one_pool_per_session:
  "(pool s \<noteq> None \<longrightarrow>
      rpmemd_req_create e req s =
        (obc_resp_ret e,
         s\<lparr>calls := calls s @ [OBC_CREATE_RESP RPMEM_ERR_FATAL], closing := True\<rparr>) \<and>
      rpmemd_req_open e req s =
        (obc_resp_ret e,
         s\<lparr>calls := calls s @ [OBC_OPEN_RESP RPMEM_ERR_FATAL], closing := True\<rparr>)) \<and>
   (pool t = None \<longrightarrow>
      rpmemd_req_close e t =
        (obc_resp_ret e,
         t\<lparr>closing := True, calls := calls t @ [OBC_CLOSE_RESP RPMEM_ERR_FATAL]\<rparr>)) \<and>
   (pool t = None \<and> held t = {} \<longrightarrow>
      finite (held (session_loop inputs t)) \<and> card (held (session_loop inputs t)) \<le> 1)"
proof -
  have a: "pool s \<noteq> None \<longrightarrow>
      rpmemd_req_create e req s =
        (obc_resp_ret e,
         s\<lparr>calls := calls s @ [OBC_CREATE_RESP RPMEM_ERR_FATAL], closing := True\<rparr>) \<and>
      rpmemd_req_open e req s =
        (obc_resp_ret e,
         s\<lparr>calls := calls s @ [OBC_OPEN_RESP RPMEM_ERR_FATAL], closing := True\<rparr>)"
    using guard_create [of s _ e req] guard_open [of s _ e req] by auto
  have b: "pool t = None \<longrightarrow>
      rpmemd_req_close e t =
        (obc_resp_ret e,
         t\<lparr>closing := True, calls := calls t @ [OBC_CLOSE_RESP RPMEM_ERR_FATAL]\<rparr>)"
    using guard_close [of t e] by simp
  have c: "pool t = None \<and> held t = {} \<longrightarrow>
      finite (held (session_loop inputs t)) \<and> card (held (session_loop inputs t)) \<le> 1"
  proof
    assume "pool t = None \<and> held t = {}"
    then have "one_pool t" by (simp add: one_pool_def)
    then have "one_pool (session_loop inputs t)" by (rule one_pool_session_loop)
    then show "finite (held (session_loop inputs t)) \<and> card (held (session_loop inputs t)) \<le> 1"
      by (rule one_pool_card)
  qed
  from a b c show ?thesis by blast
qed

theorem one_pool_per_session_witness:
  "pool (snd (rpmemd_req_create env_ok req_p1 s_init)) \<noteq> None \<and>
   fst (rpmemd_req_open env_ok req_p2 (snd (rpmemd_req_create env_ok req_p1 s_init))) = 0 \<and>
   calls (snd (rpmemd_req_open env_ok req_p2 (snd (rpmemd_req_create env_ok req_p1 s_init)))) =
     calls (snd (rpmemd_req_create env_ok req_p1 s_init)) @ [OBC_OPEN_RESP RPMEM_ERR_FATAL] \<and>
   pool s_init = None \<and> held s_init = {} \<and>
   rpmemd_req_close env_ok s_init =
     (0, s_init\<lparr>closing := True, calls := calls s_init @ [OBC_CLOSE_RESP RPMEM_ERR_FATAL]\<rparr>) \<and>
   card (held (session_loop [(REQ_CREATE req_p1, env_ok), (REQ_OPEN req_p2, env_ok)] s_init)) \<le> 1"
proof -
  let ?s = "snd (rpmemd_req_create env_ok req_p1 s_init)"
  let ?inputs = "[(REQ_CREATE req_p1, env_ok), (REQ_OPEN req_p2, env_ok)]"
  have h1: "pool ?s \<noteq> None"
    by (simp add: create_defs prim_defs example_defs rpmemd_check_pool_def POOL_HDR_SIZE_def)
  have h2: "pool s_init = None" by (simp add: s_init_def)
  have h3: "held s_init = {}" by (simp add: s_init_def)
  have r: "obc_resp_ret env_ok = 0" by (simp add: env_ok_def)
  note t = one_pool_per_session [where s = ?s and t = s_init and e = env_ok and req = req_p2
      and inputs = ?inputs, unfolded r]
  from t h1 have "rpmemd_req_open env_ok req_p2 ?s =
      (0, ?s\<lparr>calls := calls ?s @ [OBC_OPEN_RESP RPMEM_ERR_FATAL], closing := True\<rparr>)"
    by blast
  then have a: "fst (rpmemd_req_open env_ok req_p2 ?s) = 0"
    and b: "calls (snd (rpmemd_req_open env_ok req_p2 ?s)) =
              calls ?s @ [OBC_OPEN_RESP RPMEM_ERR_FATAL]"
    by simp_all
  from t h2 have c: "rpmemd_req_close env_ok s_init =
     (0, s_init\<lparr>closing := True, calls := calls s_init @ [OBC_CLOSE_RESP RPMEM_ERR_FATAL]\<rparr>)"
    by blast
  from t h2 h3 have d: "card (held (session_loop ?inputs s_init)) \<le> 1"
    by blast
  from h1 a b h2 h3 c d show ?thesis by blast
qed

section \<open>Properties of the tunnel transport\<close>

lemma WTERMSIG_exit: "WTERMSIG (W_EXITCODE c 0) = 0"
proof -
  have m: "(0x7f :: 32 word) = mask 7" by (simp add: mask_eq_exp_minus_1)
  have "push_bit 8 c AND (mask 7 :: 32 word) = 0"
    by (simp only: flip: take_bit_eq_mask) (simp add: take_bit_push_bit)
  then show ?thesis by (simp add: WTERMSIG_def W_EXITCODE_def m)
qed

text \<open>
  C7. The claim has \<^verbatim>\<open>rpmem_ssh_close\<close> return the exit code of a child that exited
  normally with a non-zero code. The code returns 0 for every normal exit, whatever the
  exit code \<open>c\<close>: for the wait status of exit code 1, \<^verbatim>\<open>WIFEXITED\<close> holds,
  \<^verbatim>\<open>WEXITSTATUS\<close> is 1, and the result is 0 with nothing logged. The branch that logs the
  exit status is reached only by a status that is neither a normal exit nor a signal,
  such as that of a stopped child. A child killed by a signal gives the raw status:
  15 for SIGTERM, 139 for SIGSEGV with a core dump (the logged signal is 11).
\<close>

theorem rpmem_ssh_close_nonzero_exit:
  "rpmem_ssh_close (W_EXITCODE c 0) = (0, []) \<and>
   WIFEXITED (W_EXITCODE 1 0) \<and> WEXITSTATUS (W_EXITCODE 1 0) = 1 \<and>
   rpmem_ssh_close (W_EXITCODE 1 0) = (0, []) \<and>
   rpmem_ssh_close (W_EXITCODE 0 0) = (0, []) \<and>
   rpmem_ssh_close (W_EXITCODE 0 15) = (15, [LOG_SIGNAL 15]) \<and>
   rpmem_ssh_close (W_EXITCODE 0 11 OR 0x80) = (139, [LOG_SIGNAL 11]) \<and>
   rpmem_ssh_close 0x137f = (0x137f, [LOG_EXIT_STATUS 0x13])"
proof -
  have every: "rpmem_ssh_close (W_EXITCODE c 0) = (0, [])"
    by (simp add: rpmem_ssh_close_def WIFEXITED_def WTERMSIG_exit)
  have at: "WIFEXITED (W_EXITCODE 1 0) \<and> WEXITSTATUS (W_EXITCODE 1 0) = 1 \<and>
      rpmem_ssh_close (W_EXITCODE 1 0) = (0, []) \<and>
      rpmem_ssh_close (W_EXITCODE 0 0) = (0, []) \<and>
      rpmem_ssh_close (W_EXITCODE 0 15) = (15, [LOG_SIGNAL 15]) \<and>
      rpmem_ssh_close (W_EXITCODE 0 11 OR 0x80) = (139, [LOG_SIGNAL 11]) \<and>
      rpmem_ssh_close 0x137f = (0x137f, [LOG_EXIT_STATUS 0x13])"
    by (simp add: rpmem_ssh_close_def W_EXITCODE_def WIFEXITED_def WTERMSIG_def
          WIFSIGNALED_def WEXITSTATUS_def)
  from every at show ?thesis by (rule conjI)
qed

text \<open>
  C9. For every call of the monitor operation, blocking or not: if the peek fails with
  \<^verbatim>\<open>EAGAIN\<close> or \<^verbatim>\<open>EWOULDBLOCK\<close> (it would block, there is nothing to read) the result is
  1, connected; if the peek sees end of file the result is 0, disconnected; and if the
  peek reads data, \<^verbatim>\<open>errno\<close> is set to \<^verbatim>\<open>EPROTO\<close> and the result is -1.
\<close>

theorem rpmem_ssh_monitor_results:
  "rpmem_ssh_monitor nonblock (XREAD_FAIL EWOULDBLOCK) errno = (1, EWOULDBLOCK) \<and>
   rpmem_ssh_monitor nonblock (XREAD_FAIL EAGAIN) errno = (1, EAGAIN) \<and>
   rpmem_ssh_monitor nonblock XREAD_EOF errno = (0, errno) \<and>
   rpmem_ssh_monitor nonblock XREAD_DATA errno = (- 1, EPROTO)"
  by (simp add: rpmem_ssh_monitor_def rpmem_xread_def Let_def)

subsection \<open>The error text\<close>

lemma c_str_terminate2:
  "c \<noteq> NUL \<Longrightarrow> d \<noteq> NUL \<Longrightarrow>
   c_str (terminate_at (terminate_at buf c) d) =
     takeWhile (\<lambda>x. x \<noteq> c \<and> x \<noteq> d \<and> x \<noteq> NUL) buf"
proof (induction buf)
  case Nil
  then show ?case by (simp add: c_str_def terminate_at_def)
next
  case (Cons x xs)
  then show ?case
    by (auto simp: c_str_def terminate_at_def split: option.splits)
qed

lemma c_str_no_NUL: "x \<in> set (c_str msg) \<Longrightarrow> x \<noteq> NUL"
  unfolding c_str_def by (rule set_takeWhileD [THEN conjunct2])

lemma c_str_snprintf:
  "0 < n \<Longrightarrow> c_str (snprintf_s buf n msg) = take (n - 1) (c_str msg)"
proof -
  assume pos: "0 < n"
  let ?out = "take (n - 1) (c_str msg)"
  have no: "\<And>x. x \<in> set ?out \<Longrightarrow> x \<noteq> NUL"
    by (rule c_str_no_NUL) (erule in_set_takeD)
  have "takeWhile (\<lambda>c. c \<noteq> NUL) (?out @ (NUL # drop (length (?out @ [NUL])) buf)) =
        ?out @ takeWhile (\<lambda>c. c \<noteq> NUL) (NUL # drop (length (?out @ [NUL])) buf)"
    using no by (rule takeWhile_append2)
  then have "c_str ((?out @ [NUL]) @ drop (length (?out @ [NUL])) buf) = ?out"
    unfolding c_str_def by simp
  with pos show ?thesis
    by (simp only: snprintf_s_def Let_def) simp
qed

lemma takeWhile_zero_tail:
  "\<not> P z \<Longrightarrow> 0 < k \<Longrightarrow> takeWhile P (xs @ replicate k z) = takeWhile P xs"
proof (induction xs)
  case Nil
  then show ?case by (cases k) simp_all
next
  case (Cons x xs)
  then show ?case by simp
qed

lemma strerror_text:
  assumes "bytes \<noteq> []"
  shows "fst (rpmem_ssh_strerror m error_str (READ_BYTES bytes) errno) =
         takeWhile (\<lambda>x. x \<noteq> CR \<and> x \<noteq> LF \<and> x \<noteq> NUL)
           (take ERR_BUFF_SIZE bytes @ drop (length (take ERR_BUFF_SIZE bytes)) error_str)"
  using assms
  by (simp add: rpmem_ssh_strerror_def Let_def c_str_terminate2 CR_def LF_def NUL_def
        ERR_BUFF_SIZE_def)

lemma strerror_text_fresh:
  assumes "bytes \<noteq> []"
  shows "fst (rpmem_ssh_strerror m fresh_error_str (READ_BYTES bytes) errno) =
         takeWhile (\<lambda>x. x \<noteq> CR \<and> x \<noteq> LF \<and> x \<noteq> NUL) (take ERR_BUFF_SIZE bytes)"
proof -
  let ?data = "take ERR_BUFF_SIZE bytes"
  have len: "length ?data \<le> ERR_BUFF_SIZE" by simp
  have tail: "drop (length ?data) fresh_error_str =
              replicate (ERR_BUFF_SIZE + 1 - length ?data) NUL"
    by (simp only: fresh_error_str_def drop_replicate)
  have pos: "0 < ERR_BUFF_SIZE + 1 - length ?data" using len by linarith
  have cut: "takeWhile (\<lambda>x. x \<noteq> CR \<and> x \<noteq> LF \<and> x \<noteq> NUL)
               (?data @ replicate (ERR_BUFF_SIZE + 1 - length ?data) NUL) =
             takeWhile (\<lambda>x. x \<noteq> CR \<and> x \<noteq> LF \<and> x \<noteq> NUL) ?data"
    using pos by (intro takeWhile_zero_tail) simp_all
  show ?thesis
    by (simp only: strerror_text [OF assms] tail cut)
qed

lemma strerror_empty:
  "fst (rpmem_ssh_strerror m error_str (READ_BYTES []) errno) =
     (if errno \<noteq> 0 then take (ERR_BUFF_SIZE - 1) (c_str (m errno)) else ''unknown error'')"
proof -
  have pos: "0 < ERR_BUFF_SIZE" by (simp add: ERR_BUFF_SIZE_def)
  have unk: "take (ERR_BUFF_SIZE - 1) (c_str ''unknown error'') = ''unknown error''"
    by (simp add: c_str_def NUL_def ERR_BUFF_SIZE_def)
  show ?thesis
    using unk by (simp add: rpmem_ssh_strerror_def Let_def c_str_snprintf [OF pos])
qed

text \<open>
  C8, as stated, fails on a text of more than one line. For the two lines \<open>a\<close> and \<open>b\<close>,
  each ended by LF, read into the fresh buffer, the helper returns \<open>a\<close>: neither the
  text with its trailing CR and LF stripped nor the last line.
\<close>

theorem rpmem_ssh_strerror_two_lines_counterexample:
  "fst (rpmem_ssh_strerror (\<lambda>e. ''Input/output error'') fresh_error_str
          (READ_BYTES [CHR ''a'', LF, CHR ''b'', LF]) 0) = ''a'' \<and>
   strip_trailing_crlf [CHR ''a'', LF, CHR ''b'', LF] = [CHR ''a'', LF, CHR ''b''] \<and>
   last_line_trimmed [CHR ''a'', LF, CHR ''b'', LF] = ''b'' \<and>
   ''a'' \<noteq> [CHR ''a'', LF, CHR ''b''] \<and> ''a'' \<noteq> ''b''"
  by (simp add: strerror_text_fresh ERR_BUFF_SIZE_def strip_trailing_crlf_def
        last_line_trimmed_def CR_def LF_def NUL_def)

text \<open>
  C8, amended. The stderr helper cuts the text read from the tunnel subprocess's
  standard error at its first CR or LF byte: the displayed cause is the first line of
  that text, without its line end. The text is what one \<^verbatim>\<open>read\<close> of at most
  \<^verbatim>\<open>ERR_BUFF_SIZE\<close> bytes delivers into the zero-filled static buffer. When stderr is
  empty and an errno is stored it returns the message for that errno; when stderr is
  empty and no errno is stored it returns "unknown error".
\<close>

theorem rpmem_ssh_strerror_first_line:
  "(bytes \<noteq> [] \<longrightarrow>
      fst (rpmem_ssh_strerror m fresh_error_str (READ_BYTES bytes) errno) =
        takeWhile (\<lambda>x. x \<noteq> CR \<and> x \<noteq> LF \<and> x \<noteq> NUL) (take ERR_BUFF_SIZE bytes)) \<and>
   (errno \<noteq> 0 \<longrightarrow>
      fst (rpmem_ssh_strerror m error_str (READ_BYTES []) errno) =
        take (ERR_BUFF_SIZE - 1) (c_str (m errno))) \<and>
   fst (rpmem_ssh_strerror m error_str (READ_BYTES []) 0) = ''unknown error''"
proof -
  have b: "bytes \<noteq> [] \<longrightarrow>
      fst (rpmem_ssh_strerror m fresh_error_str (READ_BYTES bytes) errno) =
        takeWhile (\<lambda>x. x \<noteq> CR \<and> x \<noteq> LF \<and> x \<noteq> NUL) (take ERR_BUFF_SIZE bytes)"
    using strerror_text_fresh [of bytes m errno] by blast
  have c: "errno \<noteq> 0 \<longrightarrow>
      fst (rpmem_ssh_strerror m error_str (READ_BYTES []) errno) =
        take (ERR_BUFF_SIZE - 1) (c_str (m errno))"
    by (simp only: strerror_empty) simp
  have d: "fst (rpmem_ssh_strerror m error_str (READ_BYTES []) 0) = ''unknown error''"
    by (simp only: strerror_empty) simp
  from b c d show ?thesis by blast
qed

theorem rpmem_ssh_strerror_first_line_witness:
  "''Permission denied (publickey).'' @ [CR, LF] \<noteq> [] \<and>
   fst (rpmem_ssh_strerror (\<lambda>e. ''No such file or directory'') fresh_error_str
          (READ_BYTES (''Permission denied (publickey).'' @ [CR, LF])) 0) =
     ''Permission denied (publickey).'' \<and>
   (2::int) \<noteq> 0 \<and>
   fst (rpmem_ssh_strerror (\<lambda>e. ''No such file or directory'') fresh_error_str
          (READ_BYTES []) 2) = ''No such file or directory''"
proof -
  let ?m = "\<lambda>e::int. ''No such file or directory''"
  let ?t = "''Permission denied (publickey).'' @ [CR, LF]"
  have h1: "?t \<noteq> []" by simp
  have h2: "(2::int) \<noteq> 0" by simp
  note t = rpmem_ssh_strerror_first_line [where bytes = ?t and m = ?m and errno = 2
      and error_str = fresh_error_str]
  have cut: "takeWhile (\<lambda>x. x \<noteq> CR \<and> x \<noteq> LF \<and> x \<noteq> NUL) (take ERR_BUFF_SIZE ?t) =
             ''Permission denied (publickey).''"
    by (simp add: ERR_BUFF_SIZE_def CR_def LF_def NUL_def)
  have msg: "take (ERR_BUFF_SIZE - 1) (c_str (?m 2)) = ''No such file or directory''"
    by (simp add: ERR_BUFF_SIZE_def c_str_def NUL_def)
  from t h1 have a: "fst (rpmem_ssh_strerror ?m fresh_error_str (READ_BYTES ?t) 2) =
      takeWhile (\<lambda>x. x \<noteq> CR \<and> x \<noteq> LF \<and> x \<noteq> NUL) (take ERR_BUFF_SIZE ?t)"
    by blast
  from t h2 have b: "fst (rpmem_ssh_strerror ?m fresh_error_str (READ_BYTES []) 2) =
      take (ERR_BUFF_SIZE - 1) (c_str (?m 2))"
    by blast
  have a0: "fst (rpmem_ssh_strerror ?m fresh_error_str (READ_BYTES ?t) 0) =
            fst (rpmem_ssh_strerror ?m fresh_error_str (READ_BYTES ?t) 2)"
    by (simp add: rpmem_ssh_strerror_def Let_def ERR_BUFF_SIZE_def)
  from h1 h2 a b a0 cut msg show ?thesis by simp
qed

end
